theory Spec2Isabelle
  imports Main "HOL-Library.Word" "HOL-Library.Multiset" "HOL-Library.AList"
begin

section \<open>Configuration (internal/config/config.go)\<close>

text \<open>
  Go's \<^verbatim>\<open>int64\<close> is a 64-bit word read as two's complement; \<^verbatim>\<open>time.Duration\<close> is an
  \<^verbatim>\<open>int64\<close> count of nanoseconds.
\<close>

type_synonym int64 = "64 word"

definition Second :: int64 where
  "Second = 1000000000"

record ServerConfig =
  Addr :: string
  ReadTimeout :: int64
  WriteTimeout :: int64
  IdleTimeout :: int64

record UploaderConfig =
  StorageDir :: string
  MaxUploadSizeMB :: int64
  MaxFormMemSizeMB :: int64

record Config =
  Server :: ServerConfig
  Uploader :: UploaderConfig

text \<open>\<^verbatim>\<open>uc.MaxUploadSizeMB << 20\<close> and \<^verbatim>\<open>uc.MaxFormMemSizeMB << 20\<close> on \<^verbatim>\<open>int64\<close>.\<close>

definition GetMaxUploadSize :: "UploaderConfig \<Rightarrow> int64" where
  "GetMaxUploadSize uc = push_bit 20 (MaxUploadSizeMB uc)"

definition GetMaxFormMemSize :: "UploaderConfig \<Rightarrow> int64" where
  "GetMaxFormMemSize uc = push_bit 20 (MaxFormMemSizeMB uc)"

text \<open>
  Errors of the operating system and of the standard library, as values. \<open>EESCAPE\<close> is
  the error of \<^verbatim>\<open>os.Root\<close> for a name that leaves the root ("path escapes from parent");
  \<open>EPARSE\<close> stands for a malformed document (multipart or YAML), \<open>ETOOLARGE\<close> for the
  error of \<^verbatim>\<open>http.MaxBytesReader\<close>.
\<close>

datatype errno =
  ENOENT | ENOTDIR | EISDIR | ENOTEMPTY | EINVAL | EACCES | EIO | ENOSPC
  | EESCAPE | EPARSE | ETOOLARGE

text \<open>\<^verbatim>\<open>os.IsNotExist(err)\<close>.\<close>

definition IsNotExist :: "errno \<Rightarrow> bool" where
  "IsNotExist e = (e = ENOENT)"

definition default_cfg :: Config where
  "default_cfg =
     \<lparr> Server = \<lparr> Addr = '':8090'', ReadTimeout = 5 * Second,
                  WriteTimeout = 10 * Second, IdleTimeout = 30 * Second \<rparr>,
       Uploader = \<lparr> StorageDir = ''storage'', MaxUploadSizeMB = 3072,
                    MaxFormMemSizeMB = 32 \<rparr> \<rparr>"

text \<open>
  \<open>NewConfig\<close>. The two calls into the environment are arguments: \<open>readFile\<close> is the
  outcome of \<^verbatim>\<open>os.ReadFile(path)\<close>, and \<open>unmarshal\<close> is \<^verbatim>\<open>yaml.Unmarshal\<close>
  (package gopkg.in/yaml.v3, not part of this repository), which decodes the document over
  the configuration it is given or fails. The second component of the result is the list of
  lines written to the logger.
\<close>

definition NewConfig ::
  "(string \<Rightarrow> Config \<Rightarrow> errno + Config) \<Rightarrow> (errno + string) \<Rightarrow> string
     \<Rightarrow> (errno + Config) \<times> string list" where
  "NewConfig unmarshal readFile path =
     (let cfg = default_cfg in
      case readFile of
        Inl err \<Rightarrow>
          if IsNotExist err
          then (Inr cfg,
                [''warn: config file '' @ [CHR 0x27] @ path @ [CHR 0x27]
                   @ '' not found, using default settings.'' @ [CHR 0x0A]])
          else (Inl err, [])
      | Inr data \<Rightarrow>
          (case unmarshal data cfg of
             Inl err \<Rightarrow> (Inl err, [])
           | Inr cfg' \<Rightarrow> (Inr cfg', [])))"


section \<open>Strings and paths (packages strings, path/filepath, fmt)\<close>

text \<open>
  Go strings are byte sequences: \<open>string\<close>. The functions below are the standard library's
  (Unix build), written out because the handlers call them.
\<close>

definition nl :: string where
  "nl = [CHR 0x0A]"

definition sq :: string where
  "sq = [CHR 0x27]"

definition HasPrefix :: "string \<Rightarrow> string \<Rightarrow> bool" where
  "HasPrefix s p = (take (length p) s = p)"

definition TrimPrefix :: "string \<Rightarrow> string \<Rightarrow> string" where
  "TrimPrefix s p = (if HasPrefix s p then drop (length p) s else s)"

definition IsPathSeparator :: "char \<Rightarrow> bool" where
  "IsPathSeparator c = (c = CHR ''/'')"

text \<open>
  \<^verbatim>\<open>filepath.Base\<close>: the empty path gives ".", trailing separators are stripped, the text
  after the last separator is kept, and a path of separators only gives "/".
\<close>

definition filepath_Base :: "string \<Rightarrow> string" where
  "filepath_Base path =
     (if path = [] then ''.''
      else let p = rev (dropWhile IsPathSeparator (rev path));
               q = rev (takeWhile (\<lambda>c. \<not> IsPathSeparator c) (rev p))
           in if q = [] then ''/'' else q)"

text \<open>The elements of a path between separators, and their concatenation with "/".\<close>

fun split_sep :: "string \<Rightarrow> string list" where
  "split_sep [] = [[]]"
| "split_sep (c # cs) =
     (if IsPathSeparator c then [] # split_sep cs
      else (case split_sep cs of [] \<Rightarrow> [[c]] | x # xs \<Rightarrow> (c # x) # xs))"

fun join_sep :: "string list \<Rightarrow> string" where
  "join_sep [] = []"
| "join_sep [x] = x"
| "join_sep (x # y # ys) = x @ ''/'' @ join_sep (y # ys)"

text \<open>
  \<^verbatim>\<open>path.Clean\<close> and \<^verbatim>\<open>filepath.Clean\<close>, element by element: empty elements and "."
  are dropped, ".." removes the element before it, is dropped at the root of a rooted
  path, and is kept at the front of a relative one. \<open>out\<close> is the output so far.
\<close>

fun clean_elems :: "bool \<Rightarrow> string list \<Rightarrow> string list \<Rightarrow> string list" where
  "clean_elems rooted out [] = out"
| "clean_elems rooted out (c # cs) =
     (if c = [] \<or> c = ''.'' then clean_elems rooted out cs
      else if c = ''..'' then
        (if out \<noteq> [] \<and> last out \<noteq> ''..'' then clean_elems rooted (butlast out) cs
         else if rooted then clean_elems rooted out cs
         else clean_elems rooted (out @ [''..'']) cs)
      else clean_elems rooted (out @ [c]) cs)"

definition Clean :: "string \<Rightarrow> string" where
  "Clean path =
     (if path = [] then ''.''
      else let rooted = IsPathSeparator (hd path);
               out = clean_elems rooted [] (split_sep path)
           in if rooted then ''/'' @ join_sep out
              else if out = [] then ''.'' else join_sep out)"

text \<open>\<^verbatim>\<open>filepath.Join(a, b)\<close>: the elements from the first non-empty one on, joined and cleaned.\<close>

definition filepath_Join :: "string \<Rightarrow> string \<Rightarrow> string" where
  "filepath_Join a b =
     (if a \<noteq> [] then Clean (a @ ''/'' @ b)
      else if b \<noteq> [] then Clean b
      else [])"

text \<open>\<^verbatim>\<open>cleanPath\<close> of net/http: \<open>Clean\<close> on a rooted path, keeping a trailing slash.\<close>

definition cleanPath :: "string \<Rightarrow> string" where
  "cleanPath p0 =
     (if p0 = [] then ''/''
      else let p = (if hd p0 \<noteq> CHR ''/'' then ''/'' @ p0 else p0);
               np = Clean p
           in if last p = CHR ''/'' \<and> np \<noteq> ''/'' then
                (if length p = length np + 1 \<and> HasPrefix p np then p else np @ ''/'')
              else np)"

text \<open>\<^verbatim>\<open>fmt.Sprint\<close> of a non-negative integer: its decimal digits.\<close>

function Sprint_nat :: "nat \<Rightarrow> string" where
  "Sprint_nat n =
     (if n < 10 then [''0123456789'' ! n]
      else Sprint_nat (n div 10) @ [''0123456789'' ! (n mod 10)])"
  by pat_completeness auto
termination
  by (relation "measure id") auto

declare Sprint_nat.simps [simp del]

text \<open>Byte-wise string order and a sort by it, as \<^verbatim>\<open>os.ReadDir\<close> sorts entries by name.\<close>

fun str_le :: "string \<Rightarrow> string \<Rightarrow> bool" where
  "str_le [] ys = True"
| "str_le (x # xs) [] = False"
| "str_le (x # xs) (y # ys) =
     ((of_char x :: nat) < of_char y \<or> (x = y \<and> str_le xs ys))"

fun insert_name :: "string \<Rightarrow> string list \<Rightarrow> string list" where
  "insert_name x [] = [x]"
| "insert_name x (y # ys) = (if str_le x y then x # y # ys else y # insert_name x ys)"

fun sort_names :: "string list \<Rightarrow> string list" where
  "sort_names [] = []"
| "sort_names (x # xs) = insert_name x (sort_names xs)"

section \<open>The host: file system, effects (package os)\<close>

text \<open>
  The host's file system is one tree of directories and regular files, without symbolic
  links. A node is addressed by the list of names from the root; the root itself is the
  empty list and is always a directory. The handlers reach it only through the calls
  below, each of which records what it attempted in the trace.
\<close>

type_synonym path = "string list"

datatype node = File string | Dir

type_synonym filesystem = "(path \<times> node) list"

definition lookup :: "filesystem \<Rightarrow> path \<Rightarrow> node option" where
  "lookup fs p = (if p = [] then Some Dir else map_of fs p)"

definition store :: "filesystem \<Rightarrow> path \<Rightarrow> node \<Rightarrow> filesystem" where
  "store fs p n = AList.update p n fs"

definition unlink :: "filesystem \<Rightarrow> path \<Rightarrow> filesystem" where
  "unlink fs p = AList.delete p fs"

definition children :: "filesystem \<Rightarrow> path \<Rightarrow> string list" where
  "children fs d =
     remdups (map (last \<circ> fst) (filter (\<lambda>(p, n). p \<noteq> [] \<and> butlast p = d) fs))"

text \<open>
  Path resolution by the kernel, from directory \<open>cur\<close>: every element is looked up in a
  directory that exists; the last element itself need not exist.
\<close>

fun walk :: "filesystem \<Rightarrow> path \<Rightarrow> string list \<Rightarrow> errno + path" where
  "walk fs cur [] = Inr cur"
| "walk fs cur (c # cs) =
     (case lookup fs cur of
        None \<Rightarrow> Inl ENOENT
      | Some (File _) \<Rightarrow> Inl ENOTDIR
      | Some Dir \<Rightarrow>
          if c = [] \<or> c = ''.'' then walk fs cur cs
          else if c = ''..'' then walk fs (butlast cur) cs
          else walk fs (cur @ [c]) cs)"

definition namei :: "filesystem \<Rightarrow> path \<Rightarrow> string \<Rightarrow> errno + path" where
  "namei fs wd p =
     (if p = [] then Inl ENOENT
      else walk fs (if IsPathSeparator (hd p) then [] else wd) (split_sep p))"

text \<open>
  Name resolution by \<^verbatim>\<open>os.Root\<close>: as the kernel's, relative to the root directory, except
  that an absolute name and a ".." at the root are refused. \<open>rel\<close> is the position below
  the root.
\<close>

fun root_walk :: "filesystem \<Rightarrow> path \<Rightarrow> path \<Rightarrow> string list \<Rightarrow> errno + path" where
  "root_walk fs root rel [] = Inr (root @ rel)"
| "root_walk fs root rel (c # cs) =
     (case lookup fs (root @ rel) of
        None \<Rightarrow> Inl ENOENT
      | Some (File _) \<Rightarrow> Inl ENOTDIR
      | Some Dir \<Rightarrow>
          if c = [] \<or> c = ''.'' then root_walk fs root rel cs
          else if c = ''..'' then
            (if rel = [] then Inl EESCAPE else root_walk fs root (butlast rel) cs)
          else root_walk fs root (rel @ [c]) cs)"

definition root_resolve :: "filesystem \<Rightarrow> path \<Rightarrow> string \<Rightarrow> errno + path" where
  "root_resolve fs root name =
     (if name = [] then Inl EINVAL
      else if IsPathSeparator (hd name) then Inl EESCAPE
      else root_walk fs root [] (split_sep name))"

text \<open>\<^verbatim>\<open>os.MkdirAll\<close>: every missing directory along the path is created.\<close>

fun mkdir_walk :: "filesystem \<Rightarrow> path \<Rightarrow> string list \<Rightarrow> errno option \<times> filesystem" where
  "mkdir_walk fs cur [] = (None, fs)"
| "mkdir_walk fs cur (c # cs) =
     (case lookup fs cur of
        None \<Rightarrow> (Some ENOENT, fs)
      | Some (File _) \<Rightarrow> (Some ENOTDIR, fs)
      | Some Dir \<Rightarrow>
          if c = [] \<or> c = ''.'' then mkdir_walk fs cur cs
          else if c = ''..'' then mkdir_walk fs (butlast cur) cs
          else (case lookup fs (cur @ [c]) of
                  Some Dir \<Rightarrow> mkdir_walk fs (cur @ [c]) cs
                | Some (File _) \<Rightarrow> (Some ENOTDIR, fs)
                | None \<Rightarrow> mkdir_walk (store fs (cur @ [c]) Dir) (cur @ [c]) cs))"

datatype handle = HBody | HRoot path | HSrc string string | HFile path

datatype event =
    EvLog string "errno option"
  | EvMkdirAll string
  | EvOpenRoot string
  | EvFhOpen string string
  | EvRootCreate path string
  | EvRootOpen path string
  | EvStat path
  | EvWrite path nat
  | EvRead path
  | EvClose handle
  | EvRemove string
  | EvReadDir string
  | EvDrain

text \<open>
  The world a handler runs in: the file system, the process's working directory, the size
  the host reports for a directory, and the trace of calls made so far. \<open>EvLog m e\<close> is a
  line written to the logger: the text \<open>m\<close>, followed by the rendering of the error
  \<open>e\<close> when there is one.
\<close>

record world =
  fs :: filesystem
  cwd :: path
  dirsize :: nat
  trace :: "event list"

definition emit :: "event \<Rightarrow> world \<Rightarrow> world" where
  "emit e w = w\<lparr>trace := trace w @ [e]\<rparr>"

definition logf :: "string \<Rightarrow> errno option \<Rightarrow> world \<Rightarrow> world" where
  "logf m e w = emit (EvLog m e) w"

definition os_MkdirAll :: "string \<Rightarrow> world \<Rightarrow> errno option \<times> world" where
  "os_MkdirAll p w =
     (let w1 = emit (EvMkdirAll p) w in
      if p = [] then (Some ENOENT, w1)
      else case mkdir_walk (fs w1) (if IsPathSeparator (hd p) then [] else cwd w1) (split_sep p) of
             (err, fs') \<Rightarrow> (err, w1\<lparr>fs := fs'\<rparr>))"

definition os_OpenRoot :: "string \<Rightarrow> world \<Rightarrow> (errno + path) \<times> world" where
  "os_OpenRoot p w =
     (let w1 = emit (EvOpenRoot p) w in
      case namei (fs w1) (cwd w1) p of
        Inl err \<Rightarrow> (Inl err, w1)
      | Inr k \<Rightarrow>
          (case lookup (fs w1) k of
             None \<Rightarrow> (Inl ENOENT, w1)
           | Some (File _) \<Rightarrow> (Inl ENOTDIR, w1)
           | Some Dir \<Rightarrow> (Inr k, w1)))"

text \<open>
  \<^verbatim>\<open>root.Create(name)\<close>: the file is created empty, or truncated. \<open>fault\<close> is a failure
  of the host that the tree does not determine (permissions, disk space).
\<close>

definition root_Create :: "path \<Rightarrow> string \<Rightarrow> errno option \<Rightarrow> world \<Rightarrow> (errno + path) \<times> world" where
  "root_Create root name fault w =
     (let w1 = emit (EvRootCreate root name) w in
      case fault of
        Some err \<Rightarrow> (Inl err, w1)
      | None \<Rightarrow>
          (case root_resolve (fs w1) root name of
             Inl err \<Rightarrow> (Inl err, w1)
           | Inr k \<Rightarrow>
               (case lookup (fs w1) k of
                  Some Dir \<Rightarrow> (Inl EISDIR, w1)
                | _ \<Rightarrow> (Inr k, w1\<lparr>fs := store (fs w1) k (File [])\<rparr>))))"

definition root_Open :: "path \<Rightarrow> string \<Rightarrow> world \<Rightarrow> (errno + path) \<times> world" where
  "root_Open root name w =
     (let w1 = emit (EvRootOpen root name) w in
      case root_resolve (fs w1) root name of
        Inl err \<Rightarrow> (Inl err, w1)
      | Inr k \<Rightarrow>
          (case lookup (fs w1) k of
             None \<Rightarrow> (Inl ENOENT, w1)
           | Some n \<Rightarrow> (Inr k, w1)))"

definition file_Stat :: "path \<Rightarrow> world \<Rightarrow> (errno + nat) \<times> world" where
  "file_Stat k w =
     (let w1 = emit (EvStat k) w in
      case lookup (fs w1) k of
        None \<Rightarrow> (Inl ENOENT, w1)
      | Some (File c) \<Rightarrow> (Inr (length c), w1)
      | Some Dir \<Rightarrow> (Inr (dirsize w1), w1))"

definition Close :: "handle \<Rightarrow> world \<Rightarrow> world" where
  "Close h w = emit (EvClose h) w"

text \<open>
  \<^verbatim>\<open>io.CopyBuffer(dst, file, buf)\<close>: the bytes of the source are appended to the
  destination. \<open>fault = Some (k, err)\<close> is a copy that fails with \<open>err\<close> after \<open>k\<close> bytes.
\<close>

definition io_CopyBuffer ::
  "path \<Rightarrow> string \<Rightarrow> (nat \<times> errno) option \<Rightarrow> world \<Rightarrow> (errno + nat) \<times> world" where
  "io_CopyBuffer dst src fault w =
     (let n = (case fault of None \<Rightarrow> length src | Some (k, err) \<Rightarrow> min k (length src));
          old = (case lookup (fs w) dst of Some (File c) \<Rightarrow> c | _ \<Rightarrow> []);
          w1 = emit (EvWrite dst n) (w\<lparr>fs := store (fs w) dst (File (old @ take n src))\<rparr>)
      in case fault of
           None \<Rightarrow> (Inr n, w1)
         | Some (k, err) \<Rightarrow> (Inl err, w1))"

text \<open>\<^verbatim>\<open>os.Remove(p)\<close>: a file, or an empty directory, is removed.\<close>

definition os_Remove :: "string \<Rightarrow> errno option \<Rightarrow> world \<Rightarrow> errno option \<times> world" where
  "os_Remove p fault w =
     (let w1 = emit (EvRemove p) w in
      case fault of
        Some err \<Rightarrow> (Some err, w1)
      | None \<Rightarrow>
          (case namei (fs w1) (cwd w1) p of
             Inl err \<Rightarrow> (Some err, w1)
           | Inr k \<Rightarrow>
               (case lookup (fs w1) k of
                  None \<Rightarrow> (Some ENOENT, w1)
                | Some (File _) \<Rightarrow> (None, w1\<lparr>fs := unlink (fs w1) k\<rparr>)
                | Some Dir \<Rightarrow>
                    if k = [] then (Some EINVAL, w1)
                    else if children (fs w1) k \<noteq> [] then (Some ENOTEMPTY, w1)
                    else (None, w1\<lparr>fs := unlink (fs w1) k\<rparr>))))"

text \<open>\<^verbatim>\<open>os.ReadDir(p)\<close>: the names of the directory's entries, sorted.\<close>

definition os_ReadDir :: "string \<Rightarrow> world \<Rightarrow> (errno + string list) \<times> world" where
  "os_ReadDir p w =
     (let w1 = emit (EvReadDir p) w in
      case namei (fs w1) (cwd w1) p of
        Inl err \<Rightarrow> (Inl err, w1)
      | Inr k \<Rightarrow>
          (case lookup (fs w1) k of
             None \<Rightarrow> (Inl ENOENT, w1)
           | Some (File _) \<Rightarrow> (Inl ENOTDIR, w1)
           | Some Dir \<Rightarrow> (Inr (sort_names (children (fs w1) k)), w1)))"

section \<open>HTTP requests and responses (package net/http)\<close>

text \<open>
  The response a handler builds through its \<^verbatim>\<open>http.ResponseWriter\<close>: the status passed to
  \<^verbatim>\<open>WriteHeader\<close> (0 until then), the header map, and the bytes written. The server hands
  every handler a fresh writer, \<open>new_response\<close>. Writes to the client do not fail here.
\<close>

record response =
  status :: nat
  header :: "(string \<times> string) list"
  body :: string

definition new_response :: response where
  "new_response = \<lparr> status = 0, header = [], body = [] \<rparr>"

definition Header_Set :: "string \<Rightarrow> string \<Rightarrow> response \<Rightarrow> response" where
  "Header_Set k v rw = rw\<lparr>header := AList.update k v (header rw)\<rparr>"

definition Header_Del :: "string \<Rightarrow> response \<Rightarrow> response" where
  "Header_Del k rw = rw\<lparr>header := AList.delete k (header rw)\<rparr>"

definition Header_Get :: "response \<Rightarrow> string \<Rightarrow> string option" where
  "Header_Get rw k = map_of (header rw) k"

definition WriteHeader :: "nat \<Rightarrow> response \<Rightarrow> response" where
  "WriteHeader code rw = (if status rw = 0 then rw\<lparr>status := code\<rparr> else rw)"

definition Write :: "string \<Rightarrow> response \<Rightarrow> response" where
  "Write bs rw = (let rw1 = WriteHeader 200 rw in rw1\<lparr>body := body rw1 @ bs\<rparr>)"

text \<open>\<^verbatim>\<open>http.Error(w, error, code)\<close>.\<close>

definition http_Error :: "response \<Rightarrow> string \<Rightarrow> nat \<Rightarrow> response" where
  "http_Error rw error code =
     Write (error @ nl)
       (WriteHeader code
          (Header_Set ''X-Content-Type-Options'' ''nosniff''
             (Header_Set ''Content-Type'' ''text/plain; charset=utf-8''
                (Header_Del ''Content-Length'' rw))))"

text \<open>
  \<^verbatim>\<open>multipart.FileHeader\<close>: the file name and the content that \<^verbatim>\<open>fh.Open()\<close> delivers.
  The remaining fields are the outcomes the host has in store for the calls made on behalf
  of this part: a failing \<^verbatim>\<open>fh.Open()\<close>, a failing create, a copy that breaks after some
  bytes, a failing remove.
\<close>

record FileHeader =
  Filename :: string
  Data :: string
  OpenErr :: "errno option"
  CreateErr :: "errno option"
  CopyErr :: "(nat \<times> errno) option"
  RemoveErr :: "errno option"

text \<open>
  A request: method, \<^verbatim>\<open>r.URL.Path\<close> (whose encoding in the request line is the default
  one), the peer's address, the length of the body, whether the body is malformed as
  multipart data, and the parts of the body in the order they were submitted, each with its
  form field and, in \<open>Filename\<close>, the file name the client sent. \<open>BodyLimit\<close> is the limit
  set by \<^verbatim>\<open>http.MaxBytesReader\<close>.
\<close>

record request =
  Method :: string
  Path :: string
  RemoteAddr :: string
  BodyLen :: nat
  Malformed :: bool
  Parts :: "(string \<times> FileHeader) list"
  BodyLimit :: "int option"

definition MaxBytesReader :: "request \<Rightarrow> int64 \<Rightarrow> request" where
  "MaxBytesReader r n = r\<lparr>BodyLimit := Some (if sint n < 0 then 0 else sint n)\<rparr>"

text \<open>
  \<^verbatim>\<open>r.MultipartForm.File\<close> is a Go map from field names to slices of file headers. It is
  kept as the list of its entries in the order the fields were first inserted.
  \<^verbatim>\<open>multipart.Reader.ReadForm\<close> appends each part that has a file name to the slice of
  its field, and records as its name the base name of what the client sent
  (\<^verbatim>\<open>Part.FileName\<close>).
\<close>

type_synonym form = "(string \<times> FileHeader list) list"

fun form_add :: "form \<Rightarrow> string \<Rightarrow> FileHeader \<Rightarrow> form" where
  "form_add [] k fh = [(k, [fh])]"
| "form_add ((k', fhs) # m) k fh =
     (if k' = k then (k', fhs @ [fh]) # m else (k', fhs) # form_add m k fh)"

fun ReadForm :: "form \<Rightarrow> (string \<times> FileHeader) list \<Rightarrow> form" where
  "ReadForm m [] = m"
| "ReadForm m ((k, fh) # ps) =
     (if Filename fh = [] then ReadForm m ps
      else ReadForm (form_add m k (fh\<lparr>Filename := filepath_Base (Filename fh)\<rparr>)) ps)"

text \<open>
  \<^verbatim>\<open>r.ParseMultipartForm(maxMemory)\<close>: the whole body is read, which fails when it is
  longer than the limit; \<open>maxMemory\<close> only decides which parts are kept in memory and which
  in temporary files.
\<close>

definition ParseMultipartForm :: "int64 \<Rightarrow> request \<Rightarrow> errno + form" where
  "ParseMultipartForm maxMemory r =
     (if (case BodyLimit r of None \<Rightarrow> False | Some n \<Rightarrow> n < int (BodyLen r)) then Inl ETOOLARGE
      else if Malformed r then Inl EPARSE
      else Inr (ReadForm [] (Parts r)))"

text \<open>
  \<^verbatim>\<open>for k, v := range m\<close> over a Go map visits every entry once, in an order the language
  leaves unspecified. The order the runtime picks is the argument \<open>rank\<close>: entries are
  visited by increasing rank.
\<close>

definition go_range :: "(string \<Rightarrow> nat) \<Rightarrow> (string \<times> 'v) list \<Rightarrow> (string \<times> 'v) list" where
  "go_range rank m = sort_key (\<lambda>(k, v). rank k) m"

section \<open>The handlers (internal/handlers/handlers.go)\<close>

record Handlers =
  uploader :: UploaderConfig

definition NewHandlers :: "Config \<Rightarrow> Handlers" where
  "NewHandlers cfg = \<lparr> uploader = Uploader cfg \<rparr>"

definition cleanupRequest :: "world \<Rightarrow> world" where
  "cleanupRequest w = Close HBody (emit EvDrain w)"

definition log_request :: "request \<Rightarrow> world \<Rightarrow> world" where
  "log_request r w =
     logf (''received request from '' @ RemoteAddr r @ '' for '' @ Path r @ nl) None w"

text \<open>
  The body of the inner loop of \<open>UploadHandler\<close>, for one file header: the state is the
  list \<open>uploadErrors\<close> and the world.
\<close>

definition upload_file ::
  "Handlers \<Rightarrow> path \<Rightarrow> string \<Rightarrow> FileHeader \<Rightarrow> string list \<times> world \<Rightarrow> string list \<times> world" where
  "upload_file h root fieldName fh st =
     (case st of (uploadErrors, w) \<Rightarrow>
      let w1 = emit (EvFhOpen fieldName (Filename fh)) w in
      case OpenErr fh of
        Some err \<Rightarrow>
          (let msg = ''error getting file '' @ sq @ Filename fh @ sq
                       @ '' from field '' @ sq @ fieldName @ sq
           in (uploadErrors @ [msg], logf (msg @ '': '') (Some err) w1))
      | None \<Rightarrow>
          (let file = HSrc fieldName (Filename fh) in
           case root_Create root (Filename fh) (CreateErr fh) w1 of
             (Inl err, w2) \<Rightarrow>
               (let msg = ''error creating file '' @ sq @ Filename fh @ sq
                in (uploadErrors @ [msg], Close file (logf (msg @ '': '') (Some err) w2)))
           | (Inr dst, w2) \<Rightarrow>
               (case io_CopyBuffer dst (Data fh) (CopyErr fh) w2 of
                  (Inl err, w3) \<Rightarrow>
                    (let msg = ''error writing file '' @ sq @ Filename fh @ sq;
                         w4 = Close (HFile dst) (Close file (logf (msg @ '': '') (Some err) w3))
                     in case os_Remove (filepath_Join (StorageDir (uploader h)) (Filename fh))
                               (RemoveErr fh) w4 of
                          (Some removeErr, w5) \<Rightarrow>
                            (uploadErrors @ [msg],
                             logf (''failed to remove partial file '' @ sq @ Filename fh @ sq
                                     @ '': '') (Some removeErr) w5)
                        | (None, w5) \<Rightarrow> (uploadErrors @ [msg], w5))
                | (Inr n, w3) \<Rightarrow> (uploadErrors, Close (HFile dst) (Close file w3)))))"

fun upload_headers ::
  "Handlers \<Rightarrow> path \<Rightarrow> string \<Rightarrow> FileHeader list \<Rightarrow> string list \<times> world
     \<Rightarrow> string list \<times> world" where
  "upload_headers h root fieldName [] st = st"
| "upload_headers h root fieldName (fh # fileHeaders) st =
     upload_headers h root fieldName fileHeaders (upload_file h root fieldName fh st)"

fun upload_fields ::
  "Handlers \<Rightarrow> path \<Rightarrow> form \<Rightarrow> string list \<times> world \<Rightarrow> string list \<times> world" where
  "upload_fields h root [] st = st"
| "upload_fields h root ((fieldName, fileHeaders) # m) st =
     upload_fields h root m (upload_headers h root fieldName fileHeaders st)"

text \<open>
  \<open>UploadHandler\<close>. \<open>marshal\<close> is \<^verbatim>\<open>json.MarshalIndent(uploadErrors, "", "\t")\<close> (package
  encoding/json), \<open>rank\<close> the order of the map iteration. The deferred calls
  (\<^verbatim>\<open>root.Close()\<close>, then \<open>cleanupRequest\<close>) run on every return after their \<^verbatim>\<open>defer\<close>.
\<close>

definition UploadHandler ::
  "(string list \<Rightarrow> string) \<Rightarrow> (string \<Rightarrow> nat) \<Rightarrow> Handlers \<Rightarrow> request \<Rightarrow> world
     \<Rightarrow> response \<times> world" where
  "UploadHandler marshal rank h r w =
     (let w0 = log_request r w in
      if Method r \<noteq> ''POST''
      then (http_Error new_response ''method must be POST'' 405, cleanupRequest w0)
      else
        let r1 = MaxBytesReader r (GetMaxUploadSize (uploader h)) in
        case ParseMultipartForm (GetMaxFormMemSize (uploader h)) r1 of
          Inl err \<Rightarrow>
            (http_Error new_response ''internal error'' 500,
             cleanupRequest (logf ''error multipart parsing: '' (Some err) w0))
        | Inr multipartForm \<Rightarrow>
            (case os_MkdirAll (StorageDir (uploader h)) w0 of
               (Some err, w1) \<Rightarrow>
                 (http_Error new_response ''internal error'' 500,
                  cleanupRequest (logf ''error creating file directory: '' (Some err) w1))
             | (None, w1) \<Rightarrow>
                 (case os_OpenRoot (StorageDir (uploader h)) w1 of
                    (Inl err, w2) \<Rightarrow>
                      (http_Error new_response ''internal error'' 500,
                       cleanupRequest (logf ''error root opening: '' (Some err) w2))
                  | (Inr root, w2) \<Rightarrow>
                      (case upload_fields h root (go_range rank multipartForm) ([], w2) of
                         (uploadErrors, w3) \<Rightarrow>
                           if length uploadErrors > 0
                           then (http_Error new_response (marshal uploadErrors) 207,
                                 cleanupRequest (Close (HRoot root) w3))
                           else (Write (''All files uploaded successfully'' @ nl)
                                   (WriteHeader 200
                                      (Header_Set ''Content-Type'' ''text/plain; charset=utf-8''
                                         new_response)),
                                 cleanupRequest (Close (HRoot root) w3))))))"

text \<open>\<^verbatim>\<open>io.Copy(w, file)\<close>: the content of the opened file is written to the response.\<close>

definition io_Copy :: "response \<Rightarrow> path \<Rightarrow> world \<Rightarrow> (errno + nat) \<times> response \<times> world" where
  "io_Copy rw file w =
     (let w1 = emit (EvRead file) w in
      case lookup (fs w1) file of
        None \<Rightarrow> (Inl ENOENT, rw, w1)
      | Some Dir \<Rightarrow> (Inl EISDIR, rw, w1)
      | Some (File c) \<Rightarrow> (Inr (length c), Write c rw, w1))"

definition downloadPrefix :: string where
  "downloadPrefix = ''/download/''"

definition DownloadHandle :: "Handlers \<Rightarrow> request \<Rightarrow> world \<Rightarrow> response \<times> world" where
  "DownloadHandle h r w =
     (let w0 = log_request r w in
      if Method r \<noteq> ''GET''
      then (http_Error new_response ''method must be GET'' 405, cleanupRequest w0)
      else
        let fileName = TrimPrefix (Path r) downloadPrefix in
        if fileName = []
        then (http_Error new_response ''file name is not indicated'' 400, cleanupRequest w0)
        else
          case os_OpenRoot (StorageDir (uploader h)) w0 of
            (Inl err, w1) \<Rightarrow>
              (http_Error new_response ''internal error'' 500, cleanupRequest w1)
          | (Inr root, w1) \<Rightarrow>
              (case root_Open root fileName w1 of
                 (Inl err, w2) \<Rightarrow>
                   (http_Error new_response ''file is not found'' 404,
                    cleanupRequest (Close (HRoot root) w2))
               | (Inr file, w2) \<Rightarrow>
                   (case file_Stat file w2 of
                      (Inl err, w3) \<Rightarrow>
                        (http_Error new_response ''unable to access file'' 500,
                         cleanupRequest (Close (HRoot root) (Close (HFile file) w3)))
                    | (Inr fsize, w3) \<Rightarrow>
                        (let rw = WriteHeader 200
                                    (Header_Set ''Content-Disposition''
                                       (''attachment; filename='' @ filepath_Base fileName)
                                       (Header_Set ''Content-Type'' ''application/octet-stream''
                                          (Header_Set ''Content-Length'' (Sprint_nat fsize)
                                             new_response)))
                         in case io_Copy rw file w3 of
                              (Inl err, rw', w4) \<Rightarrow>
                                (rw',
                                 cleanupRequest (Close (HRoot root) (Close (HFile file)
                                   (logf (''Error transferring file '' @ fileName @ '': '')
                                      (Some err) w4))))
                            | (Inr n, rw', w4) \<Rightarrow>
                                (rw',
                                 cleanupRequest (Close (HRoot root) (Close (HFile file) w4)))))))"

text \<open>The loop of \<open>DownloadList\<close> over the directory entries, on the string builder.\<close>

fun write_names :: "string \<Rightarrow> string list \<Rightarrow> string" where
  "write_names sb [] = sb"
| "write_names sb (name # files) = write_names (sb @ name @ nl) files"

definition DownloadList :: "Handlers \<Rightarrow> request \<Rightarrow> world \<Rightarrow> response \<times> world" where
  "DownloadList h r w =
     (let w0 = log_request r w in
      if Method r \<noteq> ''GET''
      then (http_Error new_response ''method must be GET'' 405, cleanupRequest w0)
      else
        case os_ReadDir (StorageDir (uploader h)) w0 of
          (Inl err, w1) \<Rightarrow>
            (http_Error new_response ''internal error'' 500, cleanupRequest w1)
        | (Inr files, w1) \<Rightarrow>
            (let fileList = write_names (''Files currently available:'' @ nl) files
             in (Write fileList
                   (WriteHeader 200
                      (Header_Set ''Content-Disposition'' ''attachment; filename=list.txt''
                         (Header_Set ''Content-Type'' ''text/plain; charset=utf-8''
                            (Header_Set ''Content-Length'' (Sprint_nat (length fileList))
                               new_response)))),
                 cleanupRequest w1)))"

section \<open>The server (internal/server/server.go)\<close>

text \<open>
  \<^verbatim>\<open>http.ServeMux\<close> for patterns without method, host and wildcards: a pattern that ends
  in "/" matches every path it is a prefix of, any other pattern matches the equal path,
  and of the matching patterns the most specific one, which is the longest, is taken.
\<close>

datatype handler = hUploadHandler | hDownloadHandle | hDownloadList

definition HasSuffix_slash :: "string \<Rightarrow> bool" where
  "HasSuffix_slash p = (p \<noteq> [] \<and> last p = CHR ''/'')"

definition pattern_matches :: "string \<Rightarrow> string \<Rightarrow> bool" where
  "pattern_matches pat p = (if HasSuffix_slash pat then HasPrefix p pat else p = pat)"

fun mux_match :: "(string \<times> handler) list \<Rightarrow> string \<Rightarrow> (string \<times> handler) option" where
  "mux_match [] p = None"
| "mux_match ((pat, hnd) # ps) p =
     (case mux_match ps p of
        None \<Rightarrow> if pattern_matches pat p then Some (pat, hnd) else None
      | Some (pat', hnd') \<Rightarrow>
          if pattern_matches pat p \<and> length pat' < length pat then Some (pat, hnd)
          else Some (pat', hnd'))"

datatype route = Found handler | NotFound | Redirect string

text \<open>
  \<^verbatim>\<open>ServeMux.findHandler\<close>: except for CONNECT the path is cleaned first; a path without
  trailing slash that no pattern matches exactly is redirected to the path with the slash
  when that is a registered pattern; a path that cleaning changed is redirected to the
  cleaned path.
\<close>

definition findHandler :: "(string \<times> handler) list \<Rightarrow> string \<Rightarrow> string \<Rightarrow> route" where
  "findHandler routes method path =
     (let p = (if method = ''CONNECT'' then path else cleanPath path);
          n = mux_match routes p
      in if (case n of None \<Rightarrow> True | Some (pat, hnd) \<Rightarrow> pat \<noteq> p) \<and> \<not> HasSuffix_slash p
            \<and> (case mux_match routes (p @ ''/'') of
                  None \<Rightarrow> False
                | Some (pat, hnd) \<Rightarrow> pat = p @ ''/'')
         then Redirect (cleanPath path @ ''/'')
         else if method \<noteq> ''CONNECT'' \<and> p \<noteq> path then Redirect p
         else case n of None \<Rightarrow> NotFound | Some (pat, hnd) \<Rightarrow> Found hnd)"

record HTTPServer =
  srvAddr :: string
  srvReadTimeout :: int64
  srvWriteTimeout :: int64
  srvIdleTimeout :: int64
  srvHandlers :: Handlers
  srvMux :: "(string \<times> handler) list"

definition NewServer :: "Config \<Rightarrow> HTTPServer" where
  "NewServer cfg =
     (let h = NewHandlers cfg;
          mux = [(''/upload'', hUploadHandler),
                 (''/download/'', hDownloadHandle),
                 (''/download/list.txt'', hDownloadList)]
      in \<lparr> srvAddr = Addr (Server cfg),
           srvReadTimeout = ReadTimeout (Server cfg),
           srvWriteTimeout = WriteTimeout (Server cfg),
           srvIdleTimeout = IdleTimeout (Server cfg),
           srvHandlers = h,
           srvMux = mux \<rparr>)"

text \<open>
  One request served by the server's mux. The bodies of the mux's own answers (not found,
  redirect) are not part of this repository; only their status and \<open>Location\<close> are kept.
\<close>

definition ServeHTTP ::
  "(string list \<Rightarrow> string) \<Rightarrow> (string \<Rightarrow> nat) \<Rightarrow> HTTPServer \<Rightarrow> request \<Rightarrow> world
     \<Rightarrow> response \<times> world" where
  "ServeHTTP marshal rank srv r w =
     (case findHandler (srvMux srv) (Method r) (Path r) of
        Found hUploadHandler \<Rightarrow> UploadHandler marshal rank (srvHandlers srv) r w
      | Found hDownloadHandle \<Rightarrow> DownloadHandle (srvHandlers srv) r w
      | Found hDownloadList \<Rightarrow> DownloadList (srvHandlers srv) r w
      | NotFound \<Rightarrow> (http_Error new_response ''404 page not found'' 404, w)
      | Redirect u \<Rightarrow> (WriteHeader 301 (Header_Set ''Location'' u new_response), w))"

section \<open>Properties\<close>

text \<open>
  C9. When the configuration file does not exist, \<open>NewConfig\<close> returns the default
  configuration (address ":8090", timeouts of 5, 10 and 30 seconds, directory "storage",
  3072 and 32 megabytes) and no error; when the file is read but does not parse,
  \<open>NewConfig\<close> returns the parser's error.
\<close>

theorem C9_NewConfig_defaults_and_parse_error:
  "fst (NewConfig unmarshal (Inl ENOENT) path) = Inr default_cfg
   \<and> Addr (Server default_cfg) = '':8090''
   \<and> sint (ReadTimeout (Server default_cfg)) = 5 * 10 ^ 9
   \<and> sint (WriteTimeout (Server default_cfg)) = 10 * 10 ^ 9
   \<and> sint (IdleTimeout (Server default_cfg)) = 30 * 10 ^ 9
   \<and> StorageDir (Uploader default_cfg) = ''storage''
   \<and> MaxUploadSizeMB (Uploader default_cfg) = 3072
   \<and> MaxFormMemSizeMB (Uploader default_cfg) = 32
   \<and> (unmarshal data default_cfg = Inl e
        \<longrightarrow> fst (NewConfig unmarshal (Inr data) path) = Inl e)"
  by (simp add: NewConfig_def IsNotExist_def default_cfg_def Second_def)

theorem C9_witness:
  "(\<lambda>d c. if d = ''server: ['' then Inl EPARSE else Inr c) ''server: ['' default_cfg = Inl EPARSE
   \<and> fst (NewConfig (\<lambda>d c. if d = ''server: ['' then Inl EPARSE else Inr c)
             (Inr ''server: ['') ''fileserver.yaml'') = Inl EPARSE"
  using C9_NewConfig_defaults_and_parse_error
    [of "\<lambda>d c. if d = ''server: ['' then Inl EPARSE else Inr c" "''fileserver.yaml''"
        "''server: [''" EPARSE]
  by simp

end
